theory Spec2Isabelle
  imports Complex_Main "HOL-Library.Multiset"
begin

section \<open>Python values used by the NEO code\<close>

text \<open>
  A Python float is modelled by the number it denotes, the two infinities, or the
  not-a-number sentinel. Only truthiness and the comparisons \<open>==\<close>, \<open><=\<close>, \<open>>=\<close>
  are applied to floats by the code, so no rounding is involved.
\<close>

datatype pyfloat = Fin real | PosInf | NegInf | NaN

text \<open>\<open>a == b\<close> on floats: not-a-number equals nothing, itself included.\<close>

fun fl_eq :: "pyfloat \<Rightarrow> pyfloat \<Rightarrow> bool" where
  "fl_eq NaN _ = False"
| "fl_eq _ NaN = False"
| "fl_eq (Fin a) (Fin b) = (a = b)"
| "fl_eq PosInf PosInf = True"
| "fl_eq NegInf NegInf = True"
| "fl_eq _ _ = False"

text \<open>\<open>a <= b\<close> on floats: false as soon as one side is not-a-number.\<close>

fun fl_le :: "pyfloat \<Rightarrow> pyfloat \<Rightarrow> bool" where
  "fl_le NaN _ = False"
| "fl_le _ NaN = False"
| "fl_le NegInf _ = True"
| "fl_le _ PosInf = True"
| "fl_le (Fin a) (Fin b) = (a \<le> b)"
| "fl_le _ _ = False"

text \<open>A calendar date (year, month, day) and a timestamp whose \<open>.date()\<close> is \<open>dt_date\<close>.\<close>

datatype pydate = Date nat nat nat

fun date_le :: "pydate \<Rightarrow> pydate \<Rightarrow> bool" where
  "date_le (Date y1 m1 d1) (Date y2 m2 d2) =
     (y1 < y2 \<or> (y1 = y2 \<and> (m1 < m2 \<or> (m1 = m2 \<and> d1 \<le> d2))))"

record pydatetime =
  dt_date :: pydate
  dt_hour :: nat
  dt_minute :: nat

text \<open>
  The values that reach a filter: \<open>None\<close>, a bool, a float or a date. An int threshold
  behaves as the float of the same value under truthiness and comparison.
\<close>

datatype pyvalue = NoneV | BoolV bool | FloatV pyfloat | DateV pydate

text \<open>Python truthiness (\<open>if x:\<close>): \<open>None\<close>, \<open>False\<close> and zero are falsy; not-a-number is truthy.\<close>

fun truthy :: "pyvalue \<Rightarrow> bool" where
  "truthy NoneV = False"
| "truthy (BoolV b) = b"
| "truthy (FloatV x) = (x \<noteq> Fin 0)"
| "truthy (DateV d) = True"

text \<open>A bool is a number in Python (\<open>True == 1.0\<close>); \<open>None\<close> and dates are not.\<close>

fun as_number :: "pyvalue \<Rightarrow> pyfloat option" where
  "as_number (BoolV b) = Some (Fin (if b then 1 else 0))"
| "as_number (FloatV x) = Some x"
| "as_number _ = None"

datatype error = AttributeError | TypeError | UnsupportedCriterionError

text \<open>The three comparators of the \<open>operator\<close> module that \<open>create_filters\<close> uses.\<close>

datatype cmp = Eq | Le | Ge

text \<open>\<open>operator.eq(a, b)\<close> never raises: values of unrelated types are unequal.\<close>

fun py_eq :: "pyvalue \<Rightarrow> pyvalue \<Rightarrow> bool" where
  "py_eq NoneV NoneV = True"
| "py_eq (DateV a) (DateV b) = (a = b)"
| "py_eq a b =
     (case (as_number a, as_number b) of
        (Some x, Some y) \<Rightarrow> fl_eq x y
      | _ \<Rightarrow> False)"

text \<open>\<open>operator.le(a, b)\<close>: numbers with numbers, dates with dates, otherwise \<open>TypeError\<close>.\<close>

fun py_le :: "pyvalue \<Rightarrow> pyvalue \<Rightarrow> error + bool" where
  "py_le (DateV a) (DateV b) = Inr (date_le a b)"
| "py_le a b =
     (case (as_number a, as_number b) of
        (Some x, Some y) \<Rightarrow> Inr (fl_le x y)
      | _ \<Rightarrow> Inl TypeError)"

fun apply_op :: "cmp \<Rightarrow> pyvalue \<Rightarrow> pyvalue \<Rightarrow> error + bool" where
  "apply_op Eq a b = Inr (py_eq a b)"
| "apply_op Le a b = py_le a b"
| "apply_op Ge a b = py_le b a"

section \<open>models.py: the two entity classes\<close>

type_synonym neo_ref = nat
type_synonym ca_ref = nat

text \<open>
  Objects live in a store and are named by their address, so that the back-links
  \<open>approach.neo\<close> and \<open>neo.approaches\<close> are references, as in the source.
\<close>

record NearEarthObject =
  designation :: string
  name :: "string option"
  diameter :: pyfloat
  hazardous :: bool
  approaches :: "ca_ref list"

text \<open>Field \<open>ca_designation\<close> is the source's \<open>_designation\<close>.\<close>

record CloseApproach =
  ca_designation :: string
  time :: "pydatetime option"
  distance :: pyfloat
  velocity :: pyfloat
  neo :: "neo_ref option"

text \<open>
  \<open>NearEarthObject.__init__\<close>: an empty name becomes \<open>None\<close>, a falsy diameter becomes
  not-a-number, the approaches list starts empty. The diameters \<open>0\<close> and \<open>0.0\<close> are
  both \<open>Fin 0\<close>.
\<close>

definition NearEarthObject_init ::
  "string \<Rightarrow> string option \<Rightarrow> pyfloat \<Rightarrow> bool \<Rightarrow> NearEarthObject" where
  "NearEarthObject_init des nm diam haz =
     \<lparr> designation = des,
       name = (case nm of None \<Rightarrow> None | Some s \<Rightarrow> if s \<noteq> [] then Some s else None),
       diameter = (if truthy (FloatV diam) then diam else NaN),
       hazardous = haz,
       approaches = [] \<rparr>"

text \<open>
  \<open>CloseApproach.__init__\<close>. The parser \<open>cd_to_datetime\<close> lives in the helpers module
  and is taken as a parameter.
\<close>

definition CloseApproach_init ::
  "(string \<Rightarrow> pydatetime) \<Rightarrow> string \<Rightarrow> string option \<Rightarrow> pyfloat \<Rightarrow> pyfloat \<Rightarrow> CloseApproach" where
  "CloseApproach_init cd_to_datetime des tm d v =
     \<lparr> ca_designation = des,
       time = (case tm of None \<Rightarrow> None
               | Some s \<Rightarrow> if s \<noteq> [] then Some (cd_to_datetime s) else None),
       distance = d,
       velocity = v,
       neo = None \<rparr>"

record heap =
  neo_heap :: "neo_ref \<Rightarrow> NearEarthObject"
  ca_heap :: "ca_ref \<Rightarrow> CloseApproach"

section \<open>filters.py\<close>

text \<open>One constructor per filter class; each holds the comparator and the reference value.\<close>

datatype attr_filter =
    AttributeFilter cmp pyvalue
  | DateFilter cmp pyvalue
  | DistanceFilter cmp pyvalue
  | VelocityFilter cmp pyvalue
  | DiameterFilter cmp pyvalue
  | HazardousFilter cmp pyvalue

fun filter_op :: "attr_filter \<Rightarrow> cmp" where
  "filter_op (AttributeFilter c v) = c"
| "filter_op (DateFilter c v) = c"
| "filter_op (DistanceFilter c v) = c"
| "filter_op (VelocityFilter c v) = c"
| "filter_op (DiameterFilter c v) = c"
| "filter_op (HazardousFilter c v) = c"

fun filter_value :: "attr_filter \<Rightarrow> pyvalue" where
  "filter_value (AttributeFilter c v) = v"
| "filter_value (DateFilter c v) = v"
| "filter_value (DistanceFilter c v) = v"
| "filter_value (VelocityFilter c v) = v"
| "filter_value (DiameterFilter c v) = v"
| "filter_value (HazardousFilter c v) = v"

text \<open>
  The \<open>get\<close> class methods. Reading an attribute of \<open>None\<close> (an approach without time,
  or without linked NEO) raises \<open>AttributeError\<close>; the base class raises
  \<open>UnsupportedCriterionError\<close>.
\<close>

fun get :: "heap \<Rightarrow> attr_filter \<Rightarrow> ca_ref \<Rightarrow> error + pyvalue" where
  "get h (AttributeFilter c v) a = Inl UnsupportedCriterionError"
| "get h (DateFilter c v) a =
     (case time (ca_heap h a) of
        None \<Rightarrow> Inl AttributeError
      | Some t \<Rightarrow> Inr (DateV (dt_date t)))"
| "get h (DistanceFilter c v) a = Inr (FloatV (distance (ca_heap h a)))"
| "get h (VelocityFilter c v) a = Inr (FloatV (velocity (ca_heap h a)))"
| "get h (DiameterFilter c v) a =
     (case neo (ca_heap h a) of
        None \<Rightarrow> Inl AttributeError
      | Some n \<Rightarrow> Inr (FloatV (diameter (neo_heap h n))))"
| "get h (HazardousFilter c v) a =
     (case neo (ca_heap h a) of
        None \<Rightarrow> Inl AttributeError
      | Some n \<Rightarrow> Inr (BoolV (hazardous (neo_heap h n))))"

text \<open>\<open>AttributeFilter.__call__\<close>: \<open>self.op(self.get(approach), self.value)\<close>.\<close>

definition call :: "heap \<Rightarrow> attr_filter \<Rightarrow> ca_ref \<Rightarrow> error + bool" where
  "call h f a =
     (case get h f a of
        Inl e \<Rightarrow> Inl e
      | Inr x \<Rightarrow> apply_op (filter_op f) x (filter_value f))"

text \<open>
  \<open>create_filters\<close>: the first nine parameters are tested for truthiness, the last one
  against \<open>None\<close>. An absent parameter is \<open>NoneV\<close>.
\<close>

definition create_filters ::
  "pyvalue \<Rightarrow> pyvalue \<Rightarrow> pyvalue \<Rightarrow> pyvalue \<Rightarrow> pyvalue \<Rightarrow> pyvalue \<Rightarrow> pyvalue \<Rightarrow>
   pyvalue \<Rightarrow> pyvalue \<Rightarrow> pyvalue \<Rightarrow> attr_filter list" where
  "create_filters date start_date end_date distance_min distance_max
       velocity_min velocity_max diameter_min diameter_max hazardous_arg =
     (if truthy date then [DateFilter Eq date] else []) @
     (if truthy start_date then [DateFilter Ge start_date] else []) @
     (if truthy end_date then [DateFilter Le end_date] else []) @
     (if truthy distance_min then [DistanceFilter Ge distance_min] else []) @
     (if truthy distance_max then [DistanceFilter Le distance_max] else []) @
     (if truthy velocity_min then [VelocityFilter Ge velocity_min] else []) @
     (if truthy velocity_max then [VelocityFilter Le velocity_max] else []) @
     (if truthy diameter_min then [DiameterFilter Ge diameter_min] else []) @
     (if truthy diameter_max then [DiameterFilter Le diameter_max] else []) @
     (if hazardous_arg \<noteq> NoneV then [HazardousFilter Eq hazardous_arg] else [])"

text \<open>
  \<open>limit\<close>: with a truthy \<open>n\<close> the generator pairs the input with \<open>range(n)\<close>, which is
  empty for a negative \<open>n\<close>; otherwise the input is returned as it is.
\<close>

definition limit :: "'a list \<Rightarrow> int option \<Rightarrow> 'a list" where
  "limit iterator n =
     (case n of
        None \<Rightarrow> iterator
      | Some k \<Rightarrow> if k \<noteq> 0 then map snd (zip [0..<nat k] iterator) else iterator)"

section \<open>database.py\<close>

record NEODatabase =
  db_neos :: "neo_ref list"
  db_approaches :: "ca_ref list"
  designation_index :: "string \<rightharpoonup> neo_ref"
  name_index :: "string \<rightharpoonup> neo_ref"

text \<open>
  The two dict comprehensions of \<open>__init__\<close>: a later NEO overwrites an earlier one
  under the same key; a NEO without name has no entry in the name index.
\<close>

definition build_designation_index :: "heap \<Rightarrow> neo_ref list \<Rightarrow> (string \<rightharpoonup> neo_ref)" where
  "build_designation_index h neos =
     fold (\<lambda>n m. m(designation (neo_heap h n) \<mapsto> n)) neos Map.empty"

definition build_name_index :: "heap \<Rightarrow> neo_ref list \<Rightarrow> (string \<rightharpoonup> neo_ref)" where
  "build_name_index h neos =
     fold (\<lambda>n m. case name (neo_heap h n) of
                    None \<Rightarrow> m
                  | Some s \<Rightarrow> if s \<noteq> [] then m(s \<mapsto> n) else m) neos Map.empty"

text \<open>
  The linking loop. A NEO object is always truthy, so \<open>if neo:\<close> tests that the lookup
  found one; then the approach gets its back-reference and is appended to the NEO's list.
\<close>

fun link_approaches :: "(string \<rightharpoonup> neo_ref) \<Rightarrow> ca_ref list \<Rightarrow> heap \<Rightarrow> heap" where
  "link_approaches idx [] h = h"
| "link_approaches idx (a # as) h =
     (case idx (ca_designation (ca_heap h a)) of
        None \<Rightarrow> link_approaches idx as h
      | Some n \<Rightarrow>
          link_approaches idx as
            (h\<lparr> ca_heap := (ca_heap h)(a := (ca_heap h a)\<lparr> neo := Some n \<rparr>),
                neo_heap := (neo_heap h)
                  (n := (neo_heap h n)\<lparr> approaches := approaches (neo_heap h n) @ [a] \<rparr>) \<rparr>))"

definition NEODatabase_init :: "heap \<Rightarrow> neo_ref list \<Rightarrow> ca_ref list \<Rightarrow> NEODatabase \<times> heap" where
  "NEODatabase_init h neos apprs =
     (let di = build_designation_index h neos;
          ni = build_name_index h neos
      in (\<lparr> db_neos = neos, db_approaches = apprs,
            designation_index = di, name_index = ni \<rparr>,
          link_approaches di apprs h))"

definition get_neo_by_designation :: "NEODatabase \<Rightarrow> string \<Rightarrow> neo_ref option" where
  "get_neo_by_designation db d = designation_index db d"

definition get_neo_by_name :: "NEODatabase \<Rightarrow> string \<Rightarrow> neo_ref option" where
  "get_neo_by_name db s = name_index db s"

text \<open>\<open>all(f(approach) for f in filters)\<close>: stops at the first false or raising filter.\<close>

fun all_filters :: "heap \<Rightarrow> attr_filter list \<Rightarrow> ca_ref \<Rightarrow> error + bool" where
  "all_filters h [] a = Inr True"
| "all_filters h (f # fs) a =
     (case call h f a of
        Inl e \<Rightarrow> Inl e
      | Inr b \<Rightarrow> if b then all_filters h fs a else Inr False)"

text \<open>
  A consumed generator: the items it yielded, and the exception that ended it, if any.
\<close>

type_synonym 'a stream_result = "'a list \<times> error option"

fun query_loop :: "heap \<Rightarrow> attr_filter list \<Rightarrow> ca_ref list \<Rightarrow> ca_ref stream_result" where
  "query_loop h fs [] = ([], None)"
| "query_loop h fs (a # as) =
     (case all_filters h fs a of
        Inl e \<Rightarrow> ([], Some e)
      | Inr b \<Rightarrow>
          if b then (a # fst (query_loop h fs as), snd (query_loop h fs as))
          else query_loop h fs as)"

definition query :: "heap \<Rightarrow> NEODatabase \<Rightarrow> attr_filter list \<Rightarrow> ca_ref stream_result" where
  "query h db fs = query_loop h fs (db_approaches db)"

text \<open>
  Filtering a generator again by one more predicate, lazily:
  \<open>(a for a in results if f(a))\<close>. The upstream exception surfaces once the items
  yielded before it are used up.
\<close>

fun filter_again :: "heap \<Rightarrow> attr_filter \<Rightarrow> ca_ref stream_result \<Rightarrow> ca_ref stream_result" where
  "filter_again h f ([], e) = ([], e)"
| "filter_again h f (a # as, e) =
     (case call h f a of
        Inl e' \<Rightarrow> ([], Some e')
      | Inr b \<Rightarrow>
          if b then (a # fst (filter_again h f (as, e)), snd (filter_again h f (as, e)))
          else filter_again h f (as, e))"

section \<open>A small data set\<close>

text \<open>
  The objects of the examples in the source's docstrings and of the specification's
  end-to-end example, placed in a store. Every other address holds an object built with
  the constructors' default arguments.
\<close>

definition example_time :: pydatetime where
  "example_time = \<lparr> dt_date = Date 2020 1 1, dt_hour = 0, dt_minute = 0 \<rparr>"

definition example_parse :: "string \<Rightarrow> pydatetime" where
  "example_parse s = example_time"

definition eros :: NearEarthObject where
  "eros = NearEarthObject_init ''433'' (Some ''Eros'') (Fin 16.84) False"

definition eros_twin :: NearEarthObject where
  "eros_twin = NearEarthObject_init ''433'' None (Fin 0) True"

definition asteroid_ab :: NearEarthObject where
  "asteroid_ab = NearEarthObject_init ''2020 AB'' (Some ''Asteroid 2020 AB'') (Fin 0.512) True"

definition eros_approach :: CloseApproach where
  "eros_approach =
     CloseApproach_init example_parse ''433'' (Some ''2020-Jan-01 00:00'') (Fin 0.15) (Fin 5)"

definition stray_approach :: CloseApproach where
  "stray_approach =
     CloseApproach_init example_parse ''99942'' (Some ''2020-Jan-01 00:00'') (Fin 1) (Fin 7)"

definition ab_approach :: CloseApproach where
  "ab_approach =
     CloseApproach_init example_parse ''2020 AB'' (Some ''2020-Jan-01 00:00'') (Fin 0.025) (Fin 25.2)"

definition example_heap :: heap where
  "example_heap =
     \<lparr> neo_heap = (\<lambda>r. NearEarthObject_init [] None NaN False)
          (0 := eros, 1 := eros_twin, 2 := asteroid_ab),
       ca_heap = (\<lambda>r. CloseApproach_init example_parse [] None (Fin 0) (Fin 0))
          (0 := eros_approach, 1 := stray_approach, 2 := ab_approach) \<rparr>"

lemmas example_defs =
  example_heap_def eros_def eros_twin_def asteroid_ab_def eros_approach_def
  stray_approach_def ab_approach_def example_parse_def example_time_def
  NearEarthObject_init_def CloseApproach_init_def

section \<open>Facts about floats, comparison and the limiter\<close>

lemma apply_op_NaN: "apply_op c (FloatV NaN) (FloatV (Fin r)) = Inr False"
  by (cases c) simp_all

lemma map_snd_zip_upt: "map snd (zip [0..<k] xs) = take k xs"
  by (simp add: map_snd_zip_take min_def)

section \<open>The filter factory\<close>

text \<open>
  C1. The claim asks that a numeric threshold supplied as exactly 0 still yields its
  predicate. The factory tests the nine date and numeric parameters for truthiness, so
  a threshold of 0 is dropped exactly like an absent one: each of the six calls below
  returns the empty collection.
\<close>

theorem create_filters_zero_threshold_dropped:
  "create_filters NoneV NoneV NoneV (FloatV (Fin 0)) NoneV NoneV NoneV NoneV NoneV NoneV = []
   \<and> create_filters NoneV NoneV NoneV NoneV (FloatV (Fin 0)) NoneV NoneV NoneV NoneV NoneV = []
   \<and> create_filters NoneV NoneV NoneV NoneV NoneV (FloatV (Fin 0)) NoneV NoneV NoneV NoneV = []
   \<and> create_filters NoneV NoneV NoneV NoneV NoneV NoneV (FloatV (Fin 0)) NoneV NoneV NoneV = []
   \<and> create_filters NoneV NoneV NoneV NoneV NoneV NoneV NoneV (FloatV (Fin 0)) NoneV NoneV = []
   \<and> create_filters NoneV NoneV NoneV NoneV NoneV NoneV NoneV NoneV (FloatV (Fin 0)) NoneV = []"
  by (simp add: create_filters_def)

text \<open>
  C9. The hazardous parameter is compared with \<open>None\<close>: whatever the other nine
  parameters are, the factory's result is the result without the hazardous parameter,
  followed by a hazardous equality predicate exactly when the parameter is not \<open>None\<close>.
  So \<open>hazardous=False\<close> alone gives one predicate, \<open>hazardous=None\<close> alone gives none,
  while a numeric threshold of 0 alone gives none either.
\<close>

theorem create_filters_hazardous_is_not_none:
  "create_filters d sd ed dmin dmax vmin vmax dimin dimax hz =
     create_filters d sd ed dmin dmax vmin vmax dimin dimax NoneV
       @ (if hz = NoneV then [] else [HazardousFilter Eq hz])
   \<and> create_filters NoneV NoneV NoneV NoneV NoneV NoneV NoneV NoneV NoneV (BoolV False)
       = [HazardousFilter Eq (BoolV False)]
   \<and> create_filters NoneV NoneV NoneV NoneV NoneV NoneV NoneV NoneV NoneV NoneV = []
   \<and> create_filters NoneV NoneV NoneV NoneV NoneV (FloatV (Fin 0)) NoneV NoneV NoneV NoneV = []"
  by (simp add: create_filters_def)

theorem create_filters_hazardous_is_not_none_witness:
  "create_filters (DateV (Date 2020 1 1)) NoneV NoneV NoneV (FloatV (Fin 0.2))
       NoneV NoneV NoneV NoneV (BoolV False) =
     [DateFilter Eq (DateV (Date 2020 1 1)), DistanceFilter Le (FloatV (Fin 0.2)),
      HazardousFilter Eq (BoolV False)]"
proof -
  have "create_filters (DateV (Date 2020 1 1)) NoneV NoneV NoneV (FloatV (Fin 0.2))
          NoneV NoneV NoneV NoneV NoneV =
        [DateFilter Eq (DateV (Date 2020 1 1)), DistanceFilter Le (FloatV (Fin 0.2))]"
    by (simp add: create_filters_def)
  with create_filters_hazardous_is_not_none
         [of "DateV (Date 2020 1 1)" NoneV NoneV NoneV "FloatV (Fin 0.2)"
             NoneV NoneV NoneV NoneV "BoolV False"]
  show ?thesis by simp
qed

section \<open>Predicates on one approach\<close>

text \<open>
  C5. On an approach whose \<open>neo\<close> reference is unset, a diameter predicate and a
  hazardous predicate raise (the \<open>AttributeError\<close> of reading an attribute of \<open>None\<close>),
  whatever the comparator and the reference value; they return neither true nor false.
\<close>

theorem orphan_neo_filters_raise:
  assumes "neo (ca_heap h a) = None"
  shows "call h (DiameterFilter c v) a = Inl AttributeError
       \<and> call h (HazardousFilter c v) a = Inl AttributeError"
  using assms by (simp add: call_def)

theorem orphan_neo_filters_raise_witness:
  "neo (ca_heap example_heap 1) = None
   \<and> call example_heap (DiameterFilter Ge (FloatV (Fin 1))) 1 = Inl AttributeError
   \<and> call example_heap (HazardousFilter Eq (BoolV True)) 1 = Inl AttributeError"
proof -
  have orphan: "neo (ca_heap example_heap 1) = None"
    by (simp add: example_defs)
  from orphan orphan_neo_filters_raise [OF orphan, of Ge "FloatV (Fin 1)"]
       orphan_neo_filters_raise [OF orphan, of Eq "BoolV True"]
  show ?thesis by simp
qed

text \<open>
  C6. On an approach linked to a NEO whose diameter is not-a-number, a diameter
  predicate with any of the three comparators and any real reference value returns
  false, and does not raise.
\<close>

theorem nan_diameter_filter_false:
  assumes "neo (ca_heap h a) = Some n" and "diameter (neo_heap h n) = NaN"
  shows "call h (DiameterFilter c (FloatV (Fin r))) a = Inr False"
  using assms by (simp add: call_def apply_op_NaN)

theorem nan_diameter_filter_false_witness:
  "call (example_heap\<lparr> ca_heap := (ca_heap example_heap)(0 := eros_approach\<lparr> neo := Some 1 \<rparr>) \<rparr>)
        (DiameterFilter Le (FloatV (Fin 100))) 0 = Inr False"
proof -
  let ?h = "example_heap\<lparr> ca_heap := (ca_heap example_heap)(0 := eros_approach\<lparr> neo := Some 1 \<rparr>) \<rparr>"
  have linked: "neo (ca_heap ?h 0) = Some 1"
    by simp
  have nan: "diameter (neo_heap ?h 1) = NaN"
    by (simp add: example_defs)
  show ?thesis by (rule nan_diameter_filter_false [OF linked nan])
qed

section \<open>The limiter\<close>

text \<open>
  C7. With a positive maximum \<open>n\<close> the limiter yields the first \<open>min n (length xs)\<close>
  items of the input, in order; with the maximum absent or zero it yields the whole
  input.
\<close>

theorem limit_takes_prefix:
  "(0 < n \<longrightarrow> limit xs (Some n) = take (nat n) xs
             \<and> length (limit xs (Some n)) = min (nat n) (length xs))
   \<and> limit xs None = xs \<and> limit xs (Some 0) = xs"
  by (auto simp: limit_def map_snd_zip_upt)

theorem limit_takes_prefix_witness:
  "limit [10, 11, 12, 13, 14, 15, 16, 17, 18, 19 :: nat] (Some 3) = [10, 11, 12]
   \<and> limit [10, 11, 12, 13, 14, 15, 16, 17, 18, 19 :: nat] None
       = [10, 11, 12, 13, 14, 15, 16, 17, 18, 19]"
  using limit_takes_prefix [of 3 "[10, 11, 12, 13, 14, 15, 16, 17, 18, 19 :: nat]"]
  by simp

section \<open>The linking loop\<close>

text \<open>The loop writes only \<open>approach.neo\<close> and \<open>neo.approaches\<close>.\<close>

lemma link_ca_designation:
  "ca_designation (ca_heap (link_approaches idx as h) a) = ca_designation (ca_heap h a)"
  by (induction as arbitrary: h) (auto split: option.splits)

lemma link_designation:
  "designation (neo_heap (link_approaches idx as h) n) = designation (neo_heap h n)"
  by (induction as arbitrary: h) (auto split: option.splits)

lemma link_name:
  "name (neo_heap (link_approaches idx as h) n) = name (neo_heap h n)"
  by (induction as arbitrary: h) (auto split: option.splits)

lemma link_approaches_list:
  "approaches (neo_heap (link_approaches idx as h) n) =
     approaches (neo_heap h n) @ filter (\<lambda>a. idx (ca_designation (ca_heap h a)) = Some n) as"
proof (induction as arbitrary: h)
  case Nil
  show ?case by simp
next
  case (Cons a as)
  show ?case
  proof (cases "idx (ca_designation (ca_heap h a))")
    case None
    then show ?thesis using Cons.IH [of h] by simp
  next
    case (Some m)
    let ?h = "h\<lparr> ca_heap := (ca_heap h)(a := (ca_heap h a)\<lparr> neo := Some m \<rparr>),
                neo_heap := (neo_heap h)
                  (m := (neo_heap h m)\<lparr> approaches := approaches (neo_heap h m) @ [a] \<rparr>) \<rparr>"
    have des: "\<And>b. ca_designation (ca_heap ?h b) = ca_designation (ca_heap h b)"
      by simp
    have step: "approaches (neo_heap (link_approaches idx as ?h) n) =
        approaches (neo_heap ?h n) @ filter (\<lambda>a. idx (ca_designation (ca_heap h a)) = Some n) as"
      using Cons.IH [of ?h] by (simp only: des)
    have "link_approaches idx (a # as) h = link_approaches idx as ?h"
      using Some by simp
    then show ?thesis using Some step by auto
  qed
qed

lemma link_neo:
  "neo (ca_heap (link_approaches idx as h) a) =
     (if a \<in> set as
      then (case idx (ca_designation (ca_heap h a)) of
              None \<Rightarrow> neo (ca_heap h a)
            | Some n \<Rightarrow> Some n)
      else neo (ca_heap h a))"
proof (induction as arbitrary: h)
  case Nil
  show ?case by simp
next
  case (Cons b as)
  show ?case
  proof (cases "idx (ca_designation (ca_heap h b))")
    case None
    then show ?thesis using Cons.IH [of h] by (auto split: option.splits)
  next
    case (Some m)
    let ?h = "h\<lparr> ca_heap := (ca_heap h)(b := (ca_heap h b)\<lparr> neo := Some m \<rparr>),
                neo_heap := (neo_heap h)
                  (m := (neo_heap h m)\<lparr> approaches := approaches (neo_heap h m) @ [b] \<rparr>) \<rparr>"
    have des: "\<And>c. ca_designation (ca_heap ?h c) = ca_designation (ca_heap h c)"
      by simp
    have step: "neo (ca_heap (link_approaches idx as ?h) a) =
       (if a \<in> set as
        then (case idx (ca_designation (ca_heap h a)) of
                None \<Rightarrow> neo (ca_heap ?h a)
              | Some n \<Rightarrow> Some n)
        else neo (ca_heap ?h a))"
      using Cons.IH [of ?h] by (simp only: des)
    have "link_approaches idx (b # as) h = link_approaches idx as ?h"
      using Some by simp
    then show ?thesis using Some step by (auto split: option.splits)
  qed
qed

lemma fold_index:
  "fold (\<lambda>n m. m(designation (neo_heap h n) \<mapsto> n)) neos m0 d =
     (case filter (\<lambda>n. designation (neo_heap h n) = d) neos of
        [] \<Rightarrow> m0 d
      | x # xs \<Rightarrow> Some (last (x # xs)))"
proof (induction neos arbitrary: m0)
  case Nil
  show ?case by simp
next
  case (Cons n neos)
  show ?case using Cons.IH [of "m0(designation (neo_heap h n) \<mapsto> n)"]
    by (auto split: list.splits)
qed

lemma designation_index_last:
  "build_designation_index h neos d =
     (case filter (\<lambda>n. designation (neo_heap h n) = d) neos of
        [] \<Rightarrow> None
      | x # xs \<Rightarrow> Some (last (x # xs)))"
  by (simp add: build_designation_index_def fold_index)

lemma designation_index_unique:
  assumes "N \<in> set neos"
    and "\<forall>M\<in>set neos. designation (neo_heap h M) = designation (neo_heap h N) \<longrightarrow> M = N"
  shows "build_designation_index h neos (designation (neo_heap h N)) = Some N"
proof -
  let ?xs = "filter (\<lambda>n. designation (neo_heap h n) = designation (neo_heap h N)) neos"
  have ne: "?xs \<noteq> []" using assms(1) by (auto simp: filter_empty_conv)
  then have "last ?xs \<in> set ?xs" by (rule last_in_set)
  then have "last ?xs = N" using assms(2) by auto
  with ne show ?thesis
    by (cases ?xs) (simp_all add: designation_index_last)
qed

lemma designation_index_none:
  assumes "\<forall>M\<in>set neos. designation (neo_heap h M) \<noteq> d"
  shows "build_designation_index h neos d = None"
proof -
  have "filter (\<lambda>n. designation (neo_heap h n) = d) neos = []"
    using assms by (auto simp: filter_empty_conv)
  then show ?thesis by (simp add: designation_index_last)
qed

lemma designation_index_link:
  "build_designation_index (link_approaches idx as h) neos = build_designation_index h neos"
  by (simp add: build_designation_index_def link_designation)

lemma count_list_append: "count_list (xs @ ys) x = count_list xs x + count_list ys x"
  by (induction xs) auto

lemma count_list_filter:
  "count_list (filter P xs) x = (if P x then count_list xs x else 0)"
  by (induction xs) auto

section \<open>Construction of the database\<close>

lemma snd_NEODatabase_init:
  "snd (NEODatabase_init h neos apprs) =
     link_approaches (build_designation_index h neos) apprs h"
  by (simp add: NEODatabase_init_def Let_def)

lemma db_approaches_init: "db_approaches (fst (NEODatabase_init h neos apprs)) = apprs"
  by (simp add: NEODatabase_init_def Let_def)

text \<open>
  C2, as amended. Let \<open>N\<close> be a NEO of the collection and the only one with its
  designation, and let \<open>A\<close> be an approach with that designation that occurs once in
  the approach collection and is not yet in \<open>N.approaches\<close>. After construction
  \<open>A.neo\<close> is \<open>N\<close> and \<open>A\<close> occurs exactly once in \<open>N.approaches\<close>. An approach whose
  designation is that of no NEO of the collection keeps the \<open>neo\<close> reference it had
  (unset, for an approach as its constructor leaves it).
\<close>

theorem database_links_matching_approaches:
  "(N \<in> set neos
      \<and> (\<forall>M\<in>set neos. designation (neo_heap h M) = designation (neo_heap h N) \<longrightarrow> M = N)
      \<and> ca_designation (ca_heap h A) = designation (neo_heap h N)
      \<and> count_list apprs A = 1
      \<and> A \<notin> set (approaches (neo_heap h N))
    \<longrightarrow> neo (ca_heap (snd (NEODatabase_init h neos apprs)) A) = Some N
      \<and> count_list (approaches (neo_heap (snd (NEODatabase_init h neos apprs)) N)) A = 1)
   \<and> ((\<forall>M\<in>set neos. designation (neo_heap h M) \<noteq> ca_designation (ca_heap h B))
    \<longrightarrow> neo (ca_heap (snd (NEODatabase_init h neos apprs)) B) = neo (ca_heap h B))"
proof (intro conjI impI)
  assume pre: "N \<in> set neos
      \<and> (\<forall>M\<in>set neos. designation (neo_heap h M) = designation (neo_heap h N) \<longrightarrow> M = N)
      \<and> ca_designation (ca_heap h A) = designation (neo_heap h N)
      \<and> count_list apprs A = 1
      \<and> A \<notin> set (approaches (neo_heap h N))"
  then have idx: "build_designation_index h neos (ca_designation (ca_heap h A)) = Some N"
    by (simp add: designation_index_unique)
  from pre have "count_list apprs A \<noteq> 0" by simp
  then have mem: "A \<in> set apprs" by (simp add: count_list_0_iff)
  show "neo (ca_heap (snd (NEODatabase_init h neos apprs)) A) = Some N"
    using idx mem by (simp add: snd_NEODatabase_init link_neo)
  have "count_list (approaches (neo_heap h N)) A = 0"
    using pre by (simp add: count_list_0_iff)
  then show "count_list (approaches (neo_heap (snd (NEODatabase_init h neos apprs)) N)) A = 1"
    using idx pre
    by (simp add: snd_NEODatabase_init link_approaches_list count_list_append count_list_filter)
next
  assume "\<forall>M\<in>set neos. designation (neo_heap h M) \<noteq> ca_designation (ca_heap h B)"
  then have "build_designation_index h neos (ca_designation (ca_heap h B)) = None"
    by (rule designation_index_none)
  then show "neo (ca_heap (snd (NEODatabase_init h neos apprs)) B) = neo (ca_heap h B)"
    by (simp add: snd_NEODatabase_init link_neo)
qed

theorem database_links_matching_approaches_witness:
  "neo (ca_heap (snd (NEODatabase_init example_heap [0, 2] [0, 1, 2])) 0) = Some 0
   \<and> count_list (approaches (neo_heap (snd (NEODatabase_init example_heap [0, 2] [0, 1, 2])) 0)) 0 = 1
   \<and> neo (ca_heap (snd (NEODatabase_init example_heap [0, 2] [0, 1, 2])) 1) = None"
proof -
  have pre: "(0::nat) \<in> set [0, 2]
      \<and> (\<forall>M\<in>set [0, 2::nat]. designation (neo_heap example_heap M)
              = designation (neo_heap example_heap 0) \<longrightarrow> M = 0)
      \<and> ca_designation (ca_heap example_heap 0) = designation (neo_heap example_heap 0)
      \<and> count_list [0, 1, 2::nat] 0 = 1
      \<and> 0 \<notin> set (approaches (neo_heap example_heap 0))"
    by (simp add: example_defs)
  have stray: "\<forall>M\<in>set [0, 2::nat]. designation (neo_heap example_heap M)
                 \<noteq> ca_designation (ca_heap example_heap 1)"
    by (simp add: example_defs)
  have unset: "neo (ca_heap example_heap 1) = None"
    by (simp add: example_defs)
  from database_links_matching_approaches [of 0 "[0, 2]" example_heap 0 "[0, 1, 2]" 1]
       pre stray unset
  show ?thesis by simp
qed

text \<open>
  The claim as stated fails on three inputs. Two NEOs carry the designation 433: the
  approach is linked to the later one, and the earlier one's list stays empty. One
  approach object occurs twice in the approach collection: it is appended twice. The
  NEO's list holds the approach already (linked by hand, as the usage note of
  \<open>models.py\<close> shows): it is appended once more.
\<close>

theorem database_links_counterexample:
  "ca_designation (ca_heap example_heap 0) = designation (neo_heap example_heap 0)
   \<and> neo (ca_heap (snd (NEODatabase_init example_heap [0, 1] [0])) 0) = Some 1
   \<and> approaches (neo_heap (snd (NEODatabase_init example_heap [0, 1] [0])) 0) = []
   \<and> approaches (neo_heap (snd (NEODatabase_init example_heap [0] [0, 0])) 0) = [0, 0]
   \<and> approaches (neo_heap (snd (NEODatabase_init
         (example_heap\<lparr> neo_heap := (neo_heap example_heap)(0 := eros\<lparr> approaches := [0] \<rparr>) \<rparr>)
         [0] [0])) 0) = [0, 0]"
  by (simp add: snd_NEODatabase_init build_designation_index_def example_defs)

text \<open>
  C10. Construction appends to the lists the NEOs already have: after one construction
  a NEO's list is its former list followed by the approaches linked to it, and after a
  second construction from the same objects those approaches follow once more. An
  approach that the first construction linked exactly once is then in the list twice.
\<close>

theorem second_construction_appends_again:
  "approaches (neo_heap (snd (NEODatabase_init h neos apprs)) N) =
     approaches (neo_heap h N)
       @ filter (\<lambda>a. build_designation_index h neos (ca_designation (ca_heap h a)) = Some N) apprs
   \<and> approaches (neo_heap (snd (NEODatabase_init (snd (NEODatabase_init h neos apprs)) neos apprs)) N) =
     approaches (neo_heap h N)
       @ filter (\<lambda>a. build_designation_index h neos (ca_designation (ca_heap h a)) = Some N) apprs
       @ filter (\<lambda>a. build_designation_index h neos (ca_designation (ca_heap h a)) = Some N) apprs
   \<and> (A \<notin> set (approaches (neo_heap h N))
        \<and> count_list (approaches (neo_heap (snd (NEODatabase_init h neos apprs)) N)) A = 1
      \<longrightarrow> count_list (approaches (neo_heap
              (snd (NEODatabase_init (snd (NEODatabase_init h neos apprs)) neos apprs)) N)) A = 2)"
proof -
  let ?L = "filter (\<lambda>a. build_designation_index h neos (ca_designation (ca_heap h a)) = Some N) apprs"
  let ?h1 = "snd (NEODatabase_init h neos apprs)"
  let ?h2 = "snd (NEODatabase_init ?h1 neos apprs)"
  have h1: "?h1 = link_approaches (build_designation_index h neos) apprs h"
    by (rule snd_NEODatabase_init)
  have first: "approaches (neo_heap ?h1 N) = approaches (neo_heap h N) @ ?L"
    by (simp only: h1 link_approaches_list)
  have idx: "build_designation_index ?h1 neos = build_designation_index h neos"
    by (simp only: h1 designation_index_link)
  have des: "\<And>a. ca_designation (ca_heap ?h1 a) = ca_designation (ca_heap h a)"
    by (simp only: h1 link_ca_designation)
  have "?h2 = link_approaches (build_designation_index h neos) apprs ?h1"
    by (simp only: snd_NEODatabase_init [of ?h1] idx)
  then have "approaches (neo_heap ?h2 N) =
      approaches (neo_heap ?h1 N)
        @ filter (\<lambda>a. build_designation_index h neos (ca_designation (ca_heap ?h1 a)) = Some N) apprs"
    by (simp only: link_approaches_list)
  then have second: "approaches (neo_heap ?h2 N) = approaches (neo_heap h N) @ ?L @ ?L"
    by (simp only: des first append_assoc)
  have twice: "A \<notin> set (approaches (neo_heap h N))
        \<and> count_list (approaches (neo_heap ?h1 N)) A = 1
      \<longrightarrow> count_list (approaches (neo_heap ?h2 N)) A = 2"
    by (simp only: first second) (auto simp: count_list_append count_list_0_iff)
  from first second twice show ?thesis by blast
qed

theorem second_construction_appends_again_witness:
  "approaches (neo_heap (snd (NEODatabase_init example_heap [0, 2] [0, 1, 2])) 0) = [0]
   \<and> approaches (neo_heap (snd (NEODatabase_init
        (snd (NEODatabase_init example_heap [0, 2] [0, 1, 2])) [0, 2] [0, 1, 2])) 0) = [0, 0]
   \<and> count_list (approaches (neo_heap (snd (NEODatabase_init
        (snd (NEODatabase_init example_heap [0, 2] [0, 1, 2])) [0, 2] [0, 1, 2])) 0)) 0 = 2"
proof -
  have old: "approaches (neo_heap example_heap 0) = []"
    by (simp add: example_defs)
  then have fresh: "0 \<notin> set (approaches (neo_heap example_heap 0))"
    by simp
  have linked: "filter (\<lambda>a. build_designation_index example_heap [0, 2]
                   (ca_designation (ca_heap example_heap a)) = Some 0) [0, 1, 2] = [0]"
    by (simp add: build_designation_index_def example_defs)
  from second_construction_appends_again [of example_heap "[0, 2]" "[0, 1, 2]" 0 0] old fresh linked
  show ?thesis by simp
qed

section \<open>A zero diameter\<close>

lemma link_diameter:
  "diameter (neo_heap (link_approaches idx as h) n) = diameter (neo_heap h n)"
  by (induction as arbitrary: h) (auto split: option.splits)

text \<open>
  C8. The NEO constructor stores not-a-number for a diameter of 0. The linking loop
  writes only the approaches list of a NEO, so whatever that list has become, and in
  particular after the database constructor has linked approaches to the NEO, every
  diameter predicate with a real reference value is false on an approach linked to it.
\<close>

theorem neo_zero_diameter_becomes_nan:
  "diameter (NearEarthObject_init des nm (Fin 0) haz) = NaN
   \<and> (neo (ca_heap h a) = Some n
        \<and> neo_heap h n = (NearEarthObject_init des nm (Fin 0) haz)\<lparr> approaches := as \<rparr>
      \<longrightarrow> call h (DiameterFilter c (FloatV (Fin r))) a = Inr False)
   \<and> (neo_heap h0 m = (NearEarthObject_init des nm (Fin 0) haz)\<lparr> approaches := as0 \<rparr>
        \<and> neo (ca_heap (snd (NEODatabase_init h0 neos apprs)) b) = Some m
      \<longrightarrow> call (snd (NEODatabase_init h0 neos apprs)) (DiameterFilter c (FloatV (Fin r))) b
            = Inr False)"
proof (intro conjI impI)
  show "diameter (NearEarthObject_init des nm (Fin 0) haz) = NaN"
    by (simp add: NearEarthObject_init_def)
next
  assume "neo (ca_heap h a) = Some n
        \<and> neo_heap h n = (NearEarthObject_init des nm (Fin 0) haz)\<lparr> approaches := as \<rparr>"
  then show "call h (DiameterFilter c (FloatV (Fin r))) a = Inr False"
    by (simp add: NearEarthObject_init_def call_def apply_op_NaN)
next
  let ?h = "snd (NEODatabase_init h0 neos apprs)"
  assume pre: "neo_heap h0 m = (NearEarthObject_init des nm (Fin 0) haz)\<lparr> approaches := as0 \<rparr>
        \<and> neo (ca_heap ?h b) = Some m"
  then have "diameter (neo_heap h0 m) = NaN"
    by (simp add: NearEarthObject_init_def)
  then have "diameter (neo_heap ?h m) = NaN"
    by (simp add: snd_NEODatabase_init link_diameter)
  with pre show "call ?h (DiameterFilter c (FloatV (Fin r))) b = Inr False"
    by (simp add: call_def apply_op_NaN)
qed

theorem neo_zero_diameter_becomes_nan_witness:
  "diameter eros_twin = NaN
   \<and> ca_designation (ca_heap example_heap 0) = designation (neo_heap example_heap 1)
   \<and> neo (ca_heap (snd (NEODatabase_init example_heap [1, 2] [0, 1, 2])) 0) = Some 1
   \<and> approaches (neo_heap (snd (NEODatabase_init example_heap [1, 2] [0, 1, 2])) 1) = [0]
   \<and> call (snd (NEODatabase_init example_heap [1, 2] [0, 1, 2]))
        (DiameterFilter Ge (FloatV (Fin 0))) 0 = Inr False"
proof -
  let ?h = "snd (NEODatabase_init example_heap [1, 2] [0, 1, 2])"
  have built: "neo_heap example_heap 1 =
      (NearEarthObject_init ''433'' None (Fin 0) True)\<lparr> approaches := [] \<rparr>"
    by (simp add: example_heap_def eros_twin_def NearEarthObject_init_def)
  have same: "ca_designation (ca_heap example_heap 0) = designation (neo_heap example_heap 1)"
    by (simp add: example_defs)
  have linked: "neo (ca_heap ?h 0) = Some 1"
    by (simp add: snd_NEODatabase_init build_designation_index_def example_defs)
  have listed: "approaches (neo_heap ?h 1) = [0]"
    by (simp add: snd_NEODatabase_init build_designation_index_def example_defs)
  from neo_zero_diameter_becomes_nan
         [where des = "''433''" and nm = None and haz = True and ?h0.0 = example_heap
            and m = 1 and ?as0.0 = "[]" and neos = "[1, 2]" and apprs = "[0, 1, 2]"
            and b = 0 and c = Ge and r = 0]
       built linked
  have "diameter (NearEarthObject_init ''433'' None (Fin 0) True) = NaN
        \<and> call ?h (DiameterFilter Ge (FloatV (Fin 0))) 0 = Inr False"
    by blast
  with same linked listed show ?thesis by (simp add: eros_twin_def)
qed

section \<open>Queries\<close>

lemma all_filters_Nil: "all_filters h [] a = Inr True"
  by simp

lemma query_loop_no_filters: "query_loop h [] as = (as, None)"
  by (induction as) simp_all

text \<open>
  When no predicate of the collection raises on the approach, the conjunction is the
  plain conjunction of the predicates' results.
\<close>

lemma all_filters_total:
  assumes "\<forall>f\<in>set fs. \<exists>b. call h f a = Inr b"
  shows "all_filters h fs a = Inr (\<forall>f\<in>set fs. call h f a = Inr True)"
  using assms
proof (induction fs)
  case Nil
  show ?case by simp
next
  case (Cons f fs)
  from Cons.prems obtain b where b: "call h f a = Inr b" by auto
  from Cons.prems have "\<forall>g\<in>set fs. \<exists>b. call h g a = Inr b" by simp
  then have IH: "all_filters h fs a = Inr (\<forall>g\<in>set fs. call h g a = Inr True)"
    by (rule Cons.IH)
  show ?case using b IH by (cases b) simp_all
qed

lemma all_filters_same_set:
  assumes "set fs' = set fs" and "\<forall>f\<in>set fs. \<exists>b. call h f a = Inr b"
  shows "all_filters h fs' a = all_filters h fs a"
proof -
  from assms have "\<forall>f\<in>set fs'. \<exists>b. call h f a = Inr b" by simp
  then have "all_filters h fs' a = Inr (\<forall>f\<in>set fs'. call h f a = Inr True)"
    by (rule all_filters_total)
  moreover from assms(2) have "all_filters h fs a = Inr (\<forall>f\<in>set fs. call h f a = Inr True)"
    by (rule all_filters_total)
  ultimately show ?thesis using assms(1) by simp
qed

lemma query_loop_same_set:
  assumes "set fs' = set fs" and "\<forall>f\<in>set fs. \<forall>a\<in>set as. \<exists>b. call h f a = Inr b"
  shows "query_loop h fs' as = query_loop h fs as"
  using assms(2)
proof (induction as)
  case Nil
  show ?case by simp
next
  case (Cons a as)
  from Cons.prems have "\<forall>f\<in>set fs. \<exists>b. call h f a = Inr b" by simp
  with assms(1) have same: "all_filters h fs' a = all_filters h fs a"
    by (rule all_filters_same_set)
  from Cons.prems have "\<forall>f\<in>set fs. \<forall>a\<in>set as. \<exists>b. call h f a = Inr b" by simp
  then have "query_loop h fs' as = query_loop h fs as" by (rule Cons.IH)
  with same show ?case by (simp split: sum.splits)
qed

lemma query_loop_two_filters:
  "query_loop h [f1, f2] as = filter_again h f2 (query_loop h [f1] as)"
proof (induction as)
  case Nil
  show ?case by simp
next
  case (Cons a as)
  show ?case
  proof (cases "call h f1 a")
    case (Inl e)
    then show ?thesis by simp
  next
    case (Inr b1)
    show ?thesis
    proof (cases b1)
      case False
      with Inr Cons.IH show ?thesis by simp
    next
      case True
      show ?thesis
      proof (cases "call h f2 a")
        case (Inl e)
        with Inr True show ?thesis by simp
      next
        case (Inr b2)
        with \<open>call h f1 a = Inr b1\<close> True Cons.IH show ?thesis
          by (cases b2) simp_all
      qed
    qed
  qed
qed

text \<open>
  C3. A query with no filters yields the stored approaches, each in its place, and
  ends without an exception; the stored approaches of a constructed database are the
  approach collection it was given.
\<close>

theorem query_without_filters_yields_all:
  "query h db [] = (db_approaches db, None)
   \<and> query h (fst (NEODatabase_init h0 neos apprs)) [] = (apprs, None)"
  by (simp add: query_def query_loop_no_filters db_approaches_init)

theorem query_without_filters_yields_all_witness:
  "query (snd (NEODatabase_init example_heap [0, 2] [0, 1, 2]))
         (fst (NEODatabase_init example_heap [0, 2] [0, 1, 2])) [] = ([0, 1, 2], None)"
  using query_without_filters_yields_all
          [of "snd (NEODatabase_init example_heap [0, 2] [0, 1, 2])"
              "fst (NEODatabase_init example_heap [0, 2] [0, 1, 2])"
              example_heap "[0, 2]" "[0, 1, 2]"]
  by (rule conjunct2)

text \<open>
  C4, as amended. A query with the two filters \<open>f1\<close>, \<open>f2\<close> is the query with \<open>f1\<close>
  filtered again by \<open>f2\<close>, exceptions included. A permuted filter collection gives the
  same query result, provided no predicate of the collection raises on a stored approach.
\<close>

theorem query_composes_and_commutes:
  "query h db [f1, f2] = filter_again h f2 (query h db [f1])
   \<and> (mset fs' = mset fs
        \<and> (\<forall>f\<in>set fs. \<forall>a\<in>set (db_approaches db). \<exists>b. call h f a = Inr b)
      \<longrightarrow> query h db fs' = query h db fs)"
proof (intro conjI impI)
  show "query h db [f1, f2] = filter_again h f2 (query h db [f1])"
    by (simp only: query_def query_loop_two_filters)
next
  assume pre: "mset fs' = mset fs
        \<and> (\<forall>f\<in>set fs. \<forall>a\<in>set (db_approaches db). \<exists>b. call h f a = Inr b)"
  then have same: "set fs' = set fs" by (auto dest: mset_eq_setD)
  from pre have "\<forall>f\<in>set fs. \<forall>a\<in>set (db_approaches db). \<exists>b. call h f a = Inr b"
    by simp
  with same have "query_loop h fs' (db_approaches db) = query_loop h fs (db_approaches db)"
    by (rule query_loop_same_set)
  then show "query h db fs' = query h db fs"
    by (simp only: query_def)
qed

theorem query_composes_and_commutes_witness:
  "query (snd (NEODatabase_init example_heap [0, 2] [0, 2]))
         (fst (NEODatabase_init example_heap [0, 2] [0, 2]))
         [HazardousFilter Eq (BoolV True), DistanceFilter Le (FloatV (Fin 0.2))]
   = ([2], None)
   \<and> query (snd (NEODatabase_init example_heap [0, 2] [0, 2]))
         (fst (NEODatabase_init example_heap [0, 2] [0, 2]))
         [DistanceFilter Le (FloatV (Fin 0.2)), HazardousFilter Eq (BoolV True)]
   = ([2], None)"
proof -
  let ?h = "snd (NEODatabase_init example_heap [0, 2] [0, 2])"
  let ?db = "fst (NEODatabase_init example_heap [0, 2] [0, 2])"
  let ?fs = "[DistanceFilter Le (FloatV (Fin 0.2)), HazardousFilter Eq (BoolV True)]"
  let ?fs' = "[HazardousFilter Eq (BoolV True), DistanceFilter Le (FloatV (Fin 0.2))]"
  have perm: "mset ?fs' = mset ?fs"
    by (simp add: add.commute)
  have total: "\<forall>f\<in>set ?fs. \<forall>a\<in>set (db_approaches ?db). \<exists>b. call ?h f a = Inr b"
    by (auto simp: db_approaches_init snd_NEODatabase_init call_def
          build_designation_index_def example_defs)
  have direct: "query ?h ?db ?fs = ([2], None)"
    by (simp add: query_def db_approaches_init snd_NEODatabase_init call_def
          build_designation_index_def example_defs)
  from query_composes_and_commutes [of ?h ?db _ _ ?fs' ?fs] perm total
  have "query ?h ?db ?fs' = query ?h ?db ?fs" by blast
  with direct show ?thesis by simp
qed

text \<open>
  The second half of the claim as stated fails where a predicate raises: the first stored
  approach is linked to no NEO and farther than 0.5. With the distance predicate first
  the conjunction stops before the hazardous predicate and the query yields the second
  approach; with the hazardous predicate first the query raises on the first approach
  and yields nothing.
\<close>

theorem query_filter_order_counterexample:
  "mset [HazardousFilter Eq (BoolV True), DistanceFilter Le (FloatV (Fin 0.5))]
     = mset [DistanceFilter Le (FloatV (Fin 0.5)), HazardousFilter Eq (BoolV True)]
   \<and> query (snd (NEODatabase_init example_heap [0, 2] [1, 2]))
         (fst (NEODatabase_init example_heap [0, 2] [1, 2]))
         [DistanceFilter Le (FloatV (Fin 0.5)), HazardousFilter Eq (BoolV True)]
       = ([2], None)
   \<and> query (snd (NEODatabase_init example_heap [0, 2] [1, 2]))
         (fst (NEODatabase_init example_heap [0, 2] [1, 2]))
         [HazardousFilter Eq (BoolV True), DistanceFilter Le (FloatV (Fin 0.5))]
       = ([], Some AttributeError)"
  by (simp add: add.commute query_def db_approaches_init snd_NEODatabase_init call_def
        build_designation_index_def example_defs)

end
